theory Spec2Isabelle
  imports Complex_Main "HOL-Library.Multiset"
begin

section \<open>Numbers and strings of the host language\<close>

text \<open>
  The services are TypeScript; every numeric field has the type \<open>number\<close>. A number is
  modelled as an exact rational or the value \<open>NaN\<close> (what \<open>parseInt\<close> and an invalid
  \<open>Date\<close> produce). Rounding of doubles and the infinities are not modelled.
  A value of type \<open>number | undefined\<close> is a \<open>jsnum option\<close>.
\<close>

datatype jsnum = NaN | Num rat






text \<open>The relational operators: every comparison with \<open>NaN\<close> is false.\<close>

fun js_lt :: "jsnum \<Rightarrow> jsnum \<Rightarrow> bool" where
  "js_lt (Num a) (Num b) = (a < b)"
| "js_lt _ _ = False"

fun js_gt :: "jsnum \<Rightarrow> jsnum \<Rightarrow> bool" where
  "js_gt (Num a) (Num b) = (a > b)"
| "js_gt _ _ = False"

text \<open>Truthiness of a \<open>number | undefined\<close>: false for \<open>undefined\<close>, \<open>0\<close> and \<open>NaN\<close>.\<close>

fun truthy :: "jsnum option \<Rightarrow> bool" where
  "truthy None = False"
| "truthy (Some NaN) = False"
| "truthy (Some (Num a)) = (a \<noteq> 0)"

text \<open>Truthiness of a \<open>string | undefined\<close>: false for \<open>undefined\<close> and the empty string.\<close>

fun truthy_str :: "string option \<Rightarrow> bool" where
  "truthy_str None = False"
| "truthy_str (Some s) = (s \<noteq> [])"


text \<open>
  Strings are lists of 8-bit characters; \<open>toUpperCase\<close> and \<open>toLowerCase\<close> act on the
  ASCII letters and leave every other character alone.
\<close>

definition lower_letters :: string where
  "lower_letters = ''abcdefghijklmnopqrstuvwxyz''"

definition upper_letters :: string where
  "upper_letters = ''ABCDEFGHIJKLMNOPQRSTUVWXYZ''"

definition toUpperChar :: "char \<Rightarrow> char" where
  "toUpperChar c = (case map_of (zip lower_letters upper_letters) c of
                      Some u \<Rightarrow> u | None \<Rightarrow> c)"

definition toLowerChar :: "char \<Rightarrow> char" where
  "toLowerChar c = (case map_of (zip upper_letters lower_letters) c of
                      Some l \<Rightarrow> l | None \<Rightarrow> c)"

definition toUpperCase :: "string \<Rightarrow> string" where
  "toUpperCase s = map toUpperChar s"

definition toLowerCase :: "string \<Rightarrow> string" where
  "toLowerCase s = map toLowerChar s"





section \<open>Shared types\<close>

record AudioQuality =
  q_format :: string
  q_bitrate :: "jsnum option"

record SearchResult =
  sr_title :: string
  sr_nzbUrl :: string
  sr_size :: jsnum
  sr_age :: jsnum
  sr_indexer :: string
  sr_quality :: AudioQuality

record QualityProfile =
  qp_id :: string
  qp_name :: string
  qp_formats :: "string list"
  qp_minBitrate :: "rat option"
  qp_maxFileSize :: "rat option"
  qp_isDefault :: bool
  qp_createdAt :: int

section \<open>QualityProfileService: filtering and ranking\<close>

text \<open>The callback of \<open>filterResults\<close>, one early \<open>return false\<close> per check.\<close>

definition filterAccepts :: "QualityProfile \<Rightarrow> SearchResult \<Rightarrow> bool" where
  "filterAccepts profile result =
     (let format = toUpperCase (q_format (sr_quality result));
          acceptedFormats = map toUpperCase (qp_formats profile)
      in if format \<notin> set acceptedFormats then False
         else if truthy (map_option Num (qp_minBitrate profile))
                 \<and> truthy (q_bitrate (sr_quality result))
                 \<and> js_lt (the (q_bitrate (sr_quality result)))
                          (Num (the (qp_minBitrate profile))) then False
         else if truthy (map_option Num (qp_maxFileSize profile))
                 \<and> js_gt (sr_size result)
                          (Num (the (qp_maxFileSize profile) * 1024 * 1024)) then False
         else True)"

definition filterResults :: "SearchResult list \<Rightarrow> QualityProfile \<Rightarrow> SearchResult list" where
  "filterResults results profile = filter (filterAccepts profile) results"




section \<open>IndexerService: the result normalizer\<close>

text \<open>
  White space as \<open>String.prototype.trim\<close>, \<open>parseInt\<close> and the class \<open>\s\<close> see it, in
  ASCII: space, tab, line feed, vertical tab, form feed, carriage return.
\<close>

definition isWhiteSpace :: "char \<Rightarrow> bool" where
  "isWhiteSpace c \<longleftrightarrow>
     c \<in> set [CHR '' '', CHR 0x09, CHR 0x0A, CHR 0x0B, CHR 0x0C, CHR 0x0D]"
















section \<open>IndexerService: the fan-out search\<close>

datatype error =
    NoEnabledIndexers
  | IndexerFailed string
  | NotFound string
  | NotConfigured
  | MissingJobId
  | ClientFailed string
  | UpdateFailed string
  | SqlError
  | NotMonitored string
  | LookupFailed string
  | Invalid string




section \<open>DownloadRepository and DownloadService: status reconciliation\<close>

datatype download_status = queued | downloading | completed | failed

text \<open>
  A row of the table \<open>downloads\<close>, which \<open>mapDownloadRow\<close> turns field by field into a
  \<open>Download\<close>; instants are milliseconds. The table is the list of its rows.
\<close>

record Download =
  d_id :: string
  d_albumId :: string
  d_sabnzbdId :: "string option"
  d_indexerName :: "string option"
  d_status :: download_status
  d_progress :: int
  d_qualityProfileId :: "string option"
  d_initiatedAt :: int
  d_completedAt :: "int option"
  d_errorMessage :: "string option"

text \<open>The \<open>Partial<Download>\<close> that \<open>update\<close> reads: a field left out is \<open>None\<close>.\<close>

record DownloadUpdates =
  du_sabnzbdId :: "string option"
  du_status :: "download_status option"
  du_progress :: "int option"
  du_completedAt :: "int option"
  du_errorMessage :: "string option"

definition noUpdates :: DownloadUpdates where
  "noUpdates = \<lparr>du_sabnzbdId = None, du_status = None, du_progress = None,
                 du_completedAt = None, du_errorMessage = None\<rparr>"

text \<open>
  The state the download operations work on: the table, the number of times the clock
  has been read, and the job ids the download client has been asked about so far (a
  record of the calls made, which the code itself does not keep).
\<close>

record DownloadState =
  ds_rows :: "Download list"
  ds_clockReads :: nat
  ds_polled :: "string list"

definition findDownloadById :: "Download list \<Rightarrow> string \<Rightarrow> Download option" where
  "findDownloadById rows ident = find (\<lambda>row. d_id row = ident) rows"

definition findActive :: "Download list \<Rightarrow> Download list" where
  "findActive rows = filter (\<lambda>row. d_status row \<in> set [queued, downloading]) rows"

text \<open>One \<open>SET\<close> clause per field that is present, applied to a matching row.\<close>

definition applyDownloadUpdates :: "DownloadUpdates \<Rightarrow> Download \<Rightarrow> Download" where
  "applyDownloadUpdates updates row =
     row\<lparr>d_sabnzbdId := (case du_sabnzbdId updates of Some v \<Rightarrow> Some v | None \<Rightarrow> d_sabnzbdId row),
         d_status := (case du_status updates of Some v \<Rightarrow> v | None \<Rightarrow> d_status row),
         d_progress := (case du_progress updates of Some v \<Rightarrow> v | None \<Rightarrow> d_progress row),
         d_completedAt := (case du_completedAt updates of Some v \<Rightarrow> Some v
                                                        | None \<Rightarrow> d_completedAt row),
         d_errorMessage := (case du_errorMessage updates of Some v \<Rightarrow> Some v
                                                          | None \<Rightarrow> d_errorMessage row)\<rparr>"

text \<open>
  \<open>DownloadRepository.update\<close>. With no clause at all the statement is
  \<open>UPDATE downloads SET  WHERE id = ?\<close>, which the database rejects.
\<close>

definition updateDownload ::
  "string \<Rightarrow> DownloadUpdates \<Rightarrow> Download list \<Rightarrow> (error + Download option) \<times> Download list" where
  "updateDownload ident updates rows =
     (if updates = noUpdates then (Inl SqlError, rows)
      else
        (let rows' = map (\<lambda>row. if d_id row = ident then applyDownloadUpdates updates row
                                 else row) rows
         in (Inr (findDownloadById rows' ident), rows')))"

text \<open>\<open>DownloadRepository.create\<close>; \<open>ident\<close> is the fresh UUID, \<open>now\<close> the time. The
  insert fails on a primary key that exists.\<close>

definition createDownload ::
  "string \<Rightarrow> int \<Rightarrow> Download \<Rightarrow> Download list \<Rightarrow> (error + Download option) \<times> Download list" where
  "createDownload ident now download rows =
     (if ident \<in> set (map d_id rows) then (Inl SqlError, rows)
      else
        (let rows' = rows @ [download\<lparr>d_id := ident, d_initiatedAt := now\<rparr>]
         in (Inr (findDownloadById rows' ident), rows')))"

definition isTerminal :: "download_status \<Rightarrow> bool" where
  "isTerminal status \<longleftrightarrow> status = completed \<or> status = failed"

text \<open>
  \<open>DownloadRepository.updateStatus\<close>; \<open>now\<close> is what \<open>new Date()\<close> gives when the status
  is terminal. The argument \<open>progress\<close> defaults to 0.
\<close>

definition updateStatus ::
  "int \<Rightarrow> string \<Rightarrow> download_status \<Rightarrow> int option \<Rightarrow> Download list
     \<Rightarrow> (error + Download option) \<times> Download list" where
  "updateStatus now ident status progress rows =
     (let updates = noUpdates\<lparr>du_status := Some status,
                              du_progress := Some (case progress of Some p \<Rightarrow> p | None \<Rightarrow> 0)\<rparr>;
          updates = (if status = completed \<or> status = failed
                     then updates\<lparr>du_completedAt := Some now\<rparr> else updates)
      in updateDownload ident updates rows)"

text \<open>What \<open>SabnzbdService.getDownloadStatus\<close> resolves to.\<close>

record ClientStatus =
  cs_status :: download_status
  cs_progress :: int
  cs_errorMessage :: "string option"

text \<open>
  The surroundings of the download service: the clock (the value of the n-th reading),
  whether SABnzbd is configured, and the answer of the download client to the n-th
  status request, which may be a failure.
\<close>

record DownloadEnv =
  de_clock :: "nat \<Rightarrow> int"
  de_configured :: bool
  de_poll :: "nat \<Rightarrow> string \<Rightarrow> string + ClientStatus"

definition updateDownloadStatus ::
  "DownloadEnv \<Rightarrow> string \<Rightarrow> DownloadState \<Rightarrow> (error + Download) \<times> DownloadState" where
  "updateDownloadStatus env downloadId s =
     (case findDownloadById (ds_rows s) downloadId of
        None \<Rightarrow> (Inl (NotFound downloadId), s)
      | Some download \<Rightarrow>
          if d_status download = completed \<or> d_status download = failed
          then (Inr download, s)
          else if \<not> truthy_str (d_sabnzbdId download) then (Inl MissingJobId, s)
          else if \<not> de_configured env then (Inl NotConfigured, s)
          else
            (let jobId = the (d_sabnzbdId download);
                 answer = de_poll env (length (ds_polled s)) jobId;
                 s1 = s\<lparr>ds_polled := ds_polled s @ [jobId]\<rparr>
             in case answer of
                  Inl message \<Rightarrow> (Inl (ClientFailed message), s1)
                | Inr status \<Rightarrow>
                    (let now = de_clock env (ds_clockReads s1);
                         s2 = (if cs_status status = completed \<or> cs_status status = failed
                               then s1\<lparr>ds_clockReads := Suc (ds_clockReads s1)\<rparr> else s1);
                         (updated, rows2) = updateStatus now downloadId (cs_status status)
                                              (Some (cs_progress status)) (ds_rows s2);
                         s3 = s2\<lparr>ds_rows := rows2\<rparr>
                     in case updated of
                          Inl e \<Rightarrow> (Inl e, s3)
                        | Inr None \<Rightarrow> (Inl (UpdateFailed downloadId), s3)
                        | Inr (Some updatedDownload) \<Rightarrow>
                            if cs_status status = failed \<and> truthy_str (cs_errorMessage status)
                            then
                              (let (again, rows4) =
                                     updateDownload downloadId
                                       (noUpdates\<lparr>du_errorMessage := cs_errorMessage status\<rparr>)
                                       (ds_rows s3);
                                   s4 = s3\<lparr>ds_rows := rows4\<rparr>
                               in case again of
                                    Inl e \<Rightarrow> (Inl e, s4)
                                  | Inr None \<Rightarrow> (Inl (UpdateFailed downloadId), s4)
                                  | Inr (Some d) \<Rightarrow> (Inr d, s4))
                            else (Inr updatedDownload, s3))))"

text \<open>
  \<open>updateAllActiveDownloads\<close>: the active downloads are read once, then each is
  reconciled in turn; a failure is logged and the loop goes on.
\<close>

fun updateEach ::
  "DownloadEnv \<Rightarrow> string list \<Rightarrow> DownloadState \<Rightarrow> Download list \<times> DownloadState" where
  "updateEach env [] s = ([], s)"
| "updateEach env (ident # rest) s =
     (case updateDownloadStatus env ident s of
        (Inl e, s') \<Rightarrow> updateEach env rest s'
      | (Inr updated, s') \<Rightarrow>
          (let (others, s'') = updateEach env rest s' in (updated # others, s'')))"

definition updateAllActiveDownloads ::
  "DownloadEnv \<Rightarrow> DownloadState \<Rightarrow> Download list \<times> DownloadState" where
  "updateAllActiveDownloads env s =
     updateEach env (map d_id (findActive (ds_rows s))) s"

section \<open>QualityProfileRepository and the profile operations of the service\<close>

text \<open>
  The table \<open>quality_profiles\<close> is the list of its rows, a row being the profile that
  \<open>mapQualityProfileRow\<close> makes of it. The schema declares \<open>id\<close> the primary key and
  \<open>name\<close> unique; an \<open>INSERT\<close> or \<open>UPDATE\<close> that would break either fails, and what
  ran before it stays done (no transaction is opened).
\<close>

type_synonym profile_table = "QualityProfile list"

text \<open>The \<open>Omit<QualityProfile, 'id' | 'createdAt'>\<close> given to \<open>create\<close>.\<close>

record NewProfile =
  np_name :: string
  np_formats :: "string list"
  np_minBitrate :: "rat option"
  np_maxFileSize :: "rat option"
  np_isDefault :: bool

text \<open>The \<open>Partial<QualityProfile>\<close> given to \<open>update\<close>.\<close>

record ProfileUpdates =
  pu_name :: "string option"
  pu_formats :: "string list option"
  pu_minBitrate :: "rat option"
  pu_maxFileSize :: "rat option"
  pu_isDefault :: "bool option"

definition noProfileUpdates :: ProfileUpdates where
  "noProfileUpdates = \<lparr>pu_name = None, pu_formats = None, pu_minBitrate = None,
                        pu_maxFileSize = None, pu_isDefault = None\<rparr>"

definition findProfileById :: "profile_table \<Rightarrow> string \<Rightarrow> QualityProfile option" where
  "findProfileById rows ident = find (\<lambda>row. qp_id row = ident) rows"

definition findByName :: "profile_table \<Rightarrow> string \<Rightarrow> QualityProfile option" where
  "findByName rows name = find (\<lambda>row. qp_name row = name) rows"

definition findDefault :: "profile_table \<Rightarrow> QualityProfile option" where
  "findDefault rows = find qp_isDefault rows"

text \<open>\<open>UPDATE quality_profiles SET is_default = 0\<close>.\<close>

definition clearDefaults :: "profile_table \<Rightarrow> profile_table" where
  "clearDefaults rows = map (\<lambda>row. row\<lparr>qp_isDefault := False\<rparr>) rows"

text \<open>\<open>QualityProfileRepository.create\<close>; \<open>ident\<close> and \<open>now\<close> are the fresh UUID and the
  time of creation.\<close>

definition createProfileRow ::
  "string \<Rightarrow> int \<Rightarrow> NewProfile \<Rightarrow> profile_table \<Rightarrow> (error + QualityProfile option) \<times> profile_table" where
  "createProfileRow ident now profile rows =
     (let rows1 = (if np_isDefault profile then clearDefaults rows else rows)
      in if ident \<in> set (map qp_id rows1) \<or> np_name profile \<in> set (map qp_name rows1)
         then (Inl SqlError, rows1)
         else
           (let rows2 = rows1 @ [\<lparr>qp_id = ident, qp_name = np_name profile,
                                   qp_formats = np_formats profile,
                                   qp_minBitrate = np_minBitrate profile,
                                   qp_maxFileSize = np_maxFileSize profile,
                                   qp_isDefault = np_isDefault profile,
                                   qp_createdAt = now\<rparr>]
            in (Inr (findProfileById rows2 ident), rows2)))"

definition applyProfileUpdates :: "ProfileUpdates \<Rightarrow> QualityProfile \<Rightarrow> QualityProfile" where
  "applyProfileUpdates updates row =
     row\<lparr>qp_name := (case pu_name updates of Some v \<Rightarrow> v | None \<Rightarrow> qp_name row),
         qp_formats := (case pu_formats updates of Some v \<Rightarrow> v | None \<Rightarrow> qp_formats row),
         qp_minBitrate := (case pu_minBitrate updates of Some v \<Rightarrow> Some v
                                                        | None \<Rightarrow> qp_minBitrate row),
         qp_maxFileSize := (case pu_maxFileSize updates of Some v \<Rightarrow> Some v
                                                          | None \<Rightarrow> qp_maxFileSize row),
         qp_isDefault := (case pu_isDefault updates of Some v \<Rightarrow> v | None \<Rightarrow> qp_isDefault row)\<rparr>"

text \<open>
  \<open>QualityProfileRepository.update\<close>. The statement fails when it has no clause, and
  when it would give a row the name of another row.
\<close>

definition updateProfileRow ::
  "string \<Rightarrow> ProfileUpdates \<Rightarrow> profile_table \<Rightarrow> (error + QualityProfile option) \<times> profile_table" where
  "updateProfileRow ident updates rows =
     (let rows1 = (if pu_isDefault updates = Some True then clearDefaults rows else rows)
      in if updates = noProfileUpdates then (Inl SqlError, rows1)
         else if (case pu_name updates of
                    Some name \<Rightarrow>
                      ident \<in> set (map qp_id rows1)
                      \<and> name \<in> set (map qp_name (filter (\<lambda>row. qp_id row \<noteq> ident) rows1))
                  | None \<Rightarrow> False)
         then (Inl SqlError, rows1)
         else
           (let rows2 = map (\<lambda>row. if qp_id row = ident then applyProfileUpdates updates row
                                    else row) rows1
            in (Inr (findProfileById rows2 ident), rows2)))"

text \<open>\<open>QualityProfileRepository.setDefault\<close>: two statements, then the row is read.\<close>

definition setDefault :: "string \<Rightarrow> profile_table \<Rightarrow> QualityProfile option \<times> profile_table" where
  "setDefault ident rows =
     (let rows1 = clearDefaults rows;
          rows2 = map (\<lambda>row. if qp_id row = ident then row\<lparr>qp_isDefault := True\<rparr> else row) rows1
      in (findProfileById rows2 ident, rows2))"

definition deleteProfileRow :: "string \<Rightarrow> profile_table \<Rightarrow> profile_table" where
  "deleteProfileRow ident rows = filter (\<lambda>row. qp_id row \<noteq> ident) rows"

text \<open>The checks of the service before it calls the repository.\<close>

definition validFormats :: "string list" where
  "validFormats = [''FLAC'', ''MP3'', ''M4A'', ''AAC'', ''OGG'', ''WAV'', ''ALAC'']"

definition createProfile ::
  "string \<Rightarrow> int \<Rightarrow> NewProfile \<Rightarrow> profile_table \<Rightarrow> (error + QualityProfile) \<times> profile_table" where
  "createProfile ident now profile rows =
     (if np_name profile = [] then (Inl (Invalid ''name''), rows)
      else if length (np_formats profile) = 0 then (Inl (Invalid ''formats''), rows)
      else if findByName rows (np_name profile) \<noteq> None then (Inl (Invalid ''duplicate''), rows)
      else if \<exists>format \<in> set (np_formats profile). toUpperCase format \<notin> set validFormats
      then (Inl (Invalid ''format''), rows)
      else if (case np_minBitrate profile of Some b \<Rightarrow> b < 0 | None \<Rightarrow> False) then (Inl (Invalid ''bitrate''), rows)
      else if (case np_maxFileSize profile of Some m \<Rightarrow> m < 0 | None \<Rightarrow> False) then (Inl (Invalid ''size''), rows)
      else (case createProfileRow ident now profile rows of
              (Inl e, rows') \<Rightarrow> (Inl e, rows')
            | (Inr created, rows') \<Rightarrow> (Inr (the created), rows')))"

definition updateProfile ::
  "string \<Rightarrow> ProfileUpdates \<Rightarrow> profile_table \<Rightarrow> (error + QualityProfile) \<times> profile_table" where
  "updateProfile ident updates rows =
     (case findProfileById rows ident of
        None \<Rightarrow> (Inl (NotFound ident), rows)
      | Some existing \<Rightarrow>
          if truthy_str (pu_name updates) \<and> pu_name updates \<noteq> Some (qp_name existing)
             \<and> findByName rows (the (pu_name updates)) \<noteq> None
          then (Inl (Invalid ''duplicate''), rows)
          else if pu_formats updates \<noteq> None \<and> length (the (pu_formats updates)) = 0
          then (Inl (Invalid ''formats''), rows)
          else if pu_formats updates \<noteq> None
                  \<and> (\<exists>format \<in> set (the (pu_formats updates)).
                        toUpperCase format \<notin> set validFormats)
          then (Inl (Invalid ''format''), rows)
          else if (case pu_minBitrate updates of Some b \<Rightarrow> b < 0 | None \<Rightarrow> False)
          then (Inl (Invalid ''bitrate''), rows)
          else if (case pu_maxFileSize updates of Some m \<Rightarrow> m < 0 | None \<Rightarrow> False)
          then (Inl (Invalid ''size''), rows)
          else (case updateProfileRow ident updates rows of
                  (Inl e, rows') \<Rightarrow> (Inl e, rows')
                | (Inr None, rows') \<Rightarrow> (Inl (UpdateFailed ident), rows')
                | (Inr (Some updated), rows') \<Rightarrow> (Inr updated, rows')))"

definition setDefaultProfile ::
  "string \<Rightarrow> profile_table \<Rightarrow> (error + QualityProfile) \<times> profile_table" where
  "setDefaultProfile ident rows =
     (case findProfileById rows ident of
        None \<Rightarrow> (Inl (NotFound ident), rows)
      | Some profile \<Rightarrow>
          (case setDefault ident rows of
             (None, rows') \<Rightarrow> (Inl (UpdateFailed ident), rows')
           | (Some updated, rows') \<Rightarrow> (Inr updated, rows')))"

definition deleteProfile :: "string \<Rightarrow> profile_table \<Rightarrow> (error + unit) \<times> profile_table" where
  "deleteProfile ident rows =
     (case findProfileById rows ident of
        None \<Rightarrow> (Inl (NotFound ident), rows)
      | Some existing \<Rightarrow>
          if qp_isDefault existing then (Inl (Invalid ''default''), rows)
          else (Inr (), deleteProfileRow ident rows))"

text \<open>The invariant of the table: at most one row is the default.\<close>

definition atMostOneDefault :: "profile_table \<Rightarrow> bool" where
  "atMostOneDefault rows \<longleftrightarrow> length (filter qp_isDefault rows) \<le> 1"

section \<open>MonitoringService\<close>

text \<open>
  \<open>normalizeTitle\<close>: lower case, \<open>trim\<close>, every character outside \<open>[\w\s]\<close> removed,
  every run of white space replaced by one space, in this order.
\<close>

definition isWordChar :: "char \<Rightarrow> bool" where
  "isWordChar c \<longleftrightarrow>
     c \<in> set (lower_letters @ upper_letters @ ''0123456789'' @ ''_'')"

definition trim :: "string \<Rightarrow> string" where
  "trim s = rev (dropWhile isWhiteSpace (rev (dropWhile isWhiteSpace s)))"

text \<open>\<open>replace(/\s+/g, ' ')\<close>; the flag says that the previous character was white space.\<close>

fun collapseSpaces :: "bool \<Rightarrow> string \<Rightarrow> string" where
  "collapseSpaces inRun [] = []"
| "collapseSpaces inRun (c # cs) =
     (if isWhiteSpace c
      then (if inRun then collapseSpaces True cs else CHR '' '' # collapseSpaces True cs)
      else c # collapseSpaces False cs)"

definition normalizeTitle :: "string \<Rightarrow> string" where
  "normalizeTitle title =
     collapseSpaces False
       (filter (\<lambda>c. isWordChar c \<or> isWhiteSpace c) (trim (toLowerCase title)))"

text \<open>Rows of \<open>artists\<close> and \<open>albums\<close> as \<open>mapArtistRow\<close> and \<open>mapAlbumRow\<close> give them;
  the columns \<open>created_at\<close> and \<open>updated_at\<close> are left out.\<close>

record Artist =
  ar_id :: string
  ar_name :: string
  ar_monitored :: bool
  ar_albumCount :: int
  ar_lastChecked :: "int option"

record Album =
  al_id :: string
  al_artistId :: string
  al_title :: string
  al_releaseYear :: "int option"
  al_trackCount :: "int option"
  al_artworkUrl :: "string option"
  al_localPath :: "string option"
  al_isOwned :: bool

record AlbumMetadata =
  am_title :: string
  am_releaseYear :: "int option"
  am_trackCount :: "int option"
  am_artworkUrl :: "string option"

text \<open>
  The state of a monitoring run: the two tables, the busy flag of the service, how often
  the clock has been read and how many UUIDs have been drawn, and a record of the calls
  made to the collaborators: the ids of the artists whose discography was requested, and
  the albums handed to \<open>DownloadService.initiateDownload\<close>, each with the id of its
  artist.
\<close>

record MonitorState =
  ms_artists :: "Artist list"
  ms_albums :: "Album list"
  ms_isRunning :: bool
  ms_clockReads :: nat
  ms_uuidsDrawn :: nat
  ms_lookups :: "string list"
  ms_handedOver :: "(string \<times> string) list"

text \<open>
  The surroundings: the clock and the UUID generator (the value of the n-th call), the
  metadata service (a failure or the albums of the discography). Whether
  \<open>initiateDownload\<close> succeeds makes no difference to what follows: its failure is
  caught and logged.
\<close>

record MonitorEnv =
  me_clock :: "nat \<Rightarrow> int"
  me_uuid :: "nat \<Rightarrow> string"
  me_discography :: "string \<Rightarrow> string + AlbumMetadata list"

definition findArtistById :: "Artist list \<Rightarrow> string \<Rightarrow> Artist option" where
  "findArtistById rows ident = find (\<lambda>row. ar_id row = ident) rows"

definition getMonitored :: "Artist list \<Rightarrow> Artist list" where
  "getMonitored rows = filter ar_monitored rows"

text \<open>\<open>AlbumRepository.findByArtistId\<close>; the \<open>ORDER BY\<close> is left out, the caller makes a
  set of the titles.\<close>

definition findByArtistId :: "Album list \<Rightarrow> string \<Rightarrow> Album list" where
  "findByArtistId rows artistId = filter (\<lambda>row. al_artistId row = artistId) rows"

definition incrementAlbumCount :: "string \<Rightarrow> Artist list \<Rightarrow> Artist list" where
  "incrementAlbumCount artistId rows =
     map (\<lambda>row. if ar_id row = artistId then row\<lparr>ar_albumCount := ar_albumCount row + 1\<rparr>
                 else row) rows"

definition setLastChecked :: "string \<Rightarrow> int \<Rightarrow> Artist list \<Rightarrow> Artist list" where
  "setLastChecked artistId now rows =
     map (\<lambda>row. if ar_id row = artistId then row\<lparr>ar_lastChecked := Some now\<rparr> else row) rows"

text \<open>The albums of the discography whose normalized title no existing album has
  (the two statements before the loop of \<open>checkArtistForNewReleases\<close>).\<close>

definition findNewAlbums :: "Album list \<Rightarrow> AlbumMetadata list \<Rightarrow> AlbumMetadata list" where
  "findNewAlbums existingAlbums discography =
     (let existingTitles = set (map (\<lambda>album. normalizeTitle (al_title album)) existingAlbums)
      in filter (\<lambda>album. normalizeTitle (am_title album) \<notin> existingTitles) discography)"

text \<open>
  \<open>processNewRelease\<close>: the album row is inserted under a fresh UUID (the insert fails
  on a primary key that exists), the album count of the artist goes up, and the album is
  handed to the download service, whose failure is logged and nothing more.
\<close>

definition processNewRelease ::
  "MonitorEnv \<Rightarrow> Artist \<Rightarrow> AlbumMetadata \<Rightarrow> MonitorState \<Rightarrow> (error + unit) \<times> MonitorState" where
  "processNewRelease env artist albumMetadata s =
     (let ident = me_uuid env (ms_uuidsDrawn s);
          s1 = s\<lparr>ms_uuidsDrawn := Suc (ms_uuidsDrawn s)\<rparr>
      in if ident \<in> set (map al_id (ms_albums s1)) then (Inl SqlError, s1)
         else
           (let album = \<lparr>al_id = ident, al_artistId = ar_id artist,
                         al_title = am_title albumMetadata,
                         al_releaseYear = am_releaseYear albumMetadata,
                         al_trackCount = am_trackCount albumMetadata,
                         al_artworkUrl = am_artworkUrl albumMetadata,
                         al_localPath = None, al_isOwned = False\<rparr>;
                s2 = s1\<lparr>ms_albums := ms_albums s1 @ [album]\<rparr>;
                s3 = s2\<lparr>ms_artists := incrementAlbumCount (ar_id artist) (ms_artists s2)\<rparr>;
                s4 = s3\<lparr>ms_handedOver := ms_handedOver s3 @ [(ar_id artist, al_id album)]\<rparr>
            in (Inr (), s4)))"

fun processAll ::
  "MonitorEnv \<Rightarrow> Artist \<Rightarrow> AlbumMetadata list \<Rightarrow> MonitorState \<Rightarrow> (error + unit) \<times> MonitorState" where
  "processAll env artist [] s = (Inr (), s)"
| "processAll env artist (newAlbum # rest) s =
     (case processNewRelease env artist newAlbum s of
        (Inl e, s') \<Rightarrow> (Inl e, s')
      | (Inr u, s') \<Rightarrow> processAll env artist rest s')"

text \<open>
  \<open>checkArtistForNewReleases\<close>. The clock is read for the throttle only when the artist
  has a last-checked time, and once more for the new last-checked time.
\<close>

definition checkArtistForNewReleases ::
  "MonitorEnv \<Rightarrow> Artist \<Rightarrow> MonitorState \<Rightarrow> (error + unit) \<times> MonitorState" where
  "checkArtistForNewReleases env artist s =
     (let s0 = (case ar_lastChecked artist of
                  None \<Rightarrow> s
                | Some t \<Rightarrow> s\<lparr>ms_clockReads := Suc (ms_clockReads s)\<rparr>)
      in if (case ar_lastChecked artist of
               None \<Rightarrow> False
             | Some t \<Rightarrow>
                 (let hoursSinceLastCheck =
                        (of_int (me_clock env (ms_clockReads s) - t) :: rat) / (1000 * 60 * 60)
                  in hoursSinceLastCheck < 24))
         then (Inr (), s0)
         else
           (let s1 = s0\<lparr>ms_lookups := ms_lookups s0 @ [ar_id artist]\<rparr>
            in case me_discography env (ar_name artist) of
                 Inl message \<Rightarrow> (Inl (LookupFailed message), s1)
               | Inr discography \<Rightarrow>
                   (let existingAlbums = findByArtistId (ms_albums s1) (ar_id artist);
                        newAlbums = findNewAlbums existingAlbums discography
                    in case processAll env artist newAlbums s1 of
                         (Inl e, s2) \<Rightarrow> (Inl e, s2)
                       | (Inr u, s2) \<Rightarrow>
                           (Inr (),
                            s2\<lparr>ms_artists :=
                                  setLastChecked (ar_id artist)
                                    (me_clock env (ms_clockReads s2)) (ms_artists s2),
                               ms_clockReads := Suc (ms_clockReads s2)\<rparr>))))"

text \<open>\<open>checkArtist\<close>, the manual check of one artist.\<close>

definition checkArtist ::
  "MonitorEnv \<Rightarrow> string \<Rightarrow> MonitorState \<Rightarrow> (error + unit) \<times> MonitorState" where
  "checkArtist env artistId s =
     (case findArtistById (ms_artists s) artistId of
        None \<Rightarrow> (Inl (NotFound artistId), s)
      | Some artist \<Rightarrow>
          if \<not> ar_monitored artist then (Inl (NotMonitored (ar_name artist)), s)
          else checkArtistForNewReleases env artist s)"

text \<open>
  \<open>checkForNewReleases\<close>, the monitoring pass: nothing when a pass is running; else
  the monitored artists are read once and checked in turn, an error of one check being
  logged only; the flag is cleared at the end.
\<close>

fun checkEach :: "MonitorEnv \<Rightarrow> Artist list \<Rightarrow> MonitorState \<Rightarrow> MonitorState" where
  "checkEach env [] s = s"
| "checkEach env (artist # rest) s =
     checkEach env rest (snd (checkArtistForNewReleases env artist s))"

definition checkForNewReleases :: "MonitorEnv \<Rightarrow> MonitorState \<Rightarrow> MonitorState" where
  "checkForNewReleases env s =
     (if ms_isRunning s then s
      else
        (let s1 = s\<lparr>ms_isRunning := True\<rparr>;
             monitoredArtists = getMonitored (ms_artists s1);
             s2 = checkEach env monitoredArtists s1
         in s2\<lparr>ms_isRunning := False\<rparr>))"

section \<open>The ranking and the filter as the specification words them\<close>








text \<open>Filter soundness as the specification states it: a bound counts whenever it is
  set, a bitrate whenever it is known.\<close>

definition spec_filter_accepts :: "QualityProfile \<Rightarrow> SearchResult \<Rightarrow> bool" where
  "spec_filter_accepts p c \<longleftrightarrow>
     toUpperCase (q_format (sr_quality c)) \<in> toUpperCase ` set (qp_formats p)
     \<and> (qp_minBitrate p = None \<or> q_bitrate (sr_quality c) = None
        \<or> (\<exists>b m. q_bitrate (sr_quality c) = Some (Num b) \<and> qp_minBitrate p = Some m
                  \<and> b \<ge> m))
     \<and> (qp_maxFileSize p = None
        \<or> (\<exists>s m. sr_size c = Num s \<and> qp_maxFileSize p = Some m \<and> s \<le> m * 1024 * 1024))"

section \<open>Sample data\<close>

text \<open>The profile and the three candidates of the end-to-end scenario, a candidate in
  lower-case FLAC, and a profile whose size bound is 0.\<close>

definition flac_mp3_profile :: QualityProfile where
  "flac_mp3_profile =
     \<lparr>qp_id = ''p1'', qp_name = ''Lossless first'', qp_formats = [''FLAC'', ''MP3''],
      qp_minBitrate = Some 256, qp_maxFileSize = Some 200, qp_isDefault = True,
      qp_createdAt = 0\<rparr>"


definition candidate_B :: SearchResult where
  "candidate_B =
     \<lparr>sr_title = ''B'', sr_nzbUrl = ''http://b'', sr_size = Num (8 * 1024 * 1024),
      sr_age = Num 1, sr_indexer = ''one'',
      sr_quality = \<lparr>q_format = ''MP3'', q_bitrate = Some (Num 192)\<rparr>\<rparr>"


definition candidate_D :: SearchResult where
  "candidate_D =
     \<lparr>sr_title = ''D'', sr_nzbUrl = ''http://d'', sr_size = Num (50 * 1024 * 1024),
      sr_age = Num 3, sr_indexer = ''one'',
      sr_quality = \<lparr>q_format = ''FLAC'', q_bitrate = Some (Num 1000)\<rparr>\<rparr>"

definition zero_max_profile :: QualityProfile where
  "zero_max_profile =
     \<lparr>qp_id = ''p2'', qp_name = ''No cap'', qp_formats = [''FLAC''],
      qp_minBitrate = None, qp_maxFileSize = Some 0, qp_isDefault = False,
      qp_createdAt = 0\<rparr>"






text \<open>An artist who owns ``The Wall'', and a discography that lists the album twice
  under other spellings.\<close>

definition the_wall_owned :: Album where
  "the_wall_owned =
     \<lparr>al_id = ''al1'', al_artistId = ''ar1'', al_title = ''The Wall'',
      al_releaseYear = Some 1979, al_trackCount = Some 26, al_artworkUrl = None,
      al_localPath = Some ''/music/the-wall'', al_isOwned = True\<rparr>"

definition wall_the_entry :: AlbumMetadata where
  "wall_the_entry =
     \<lparr>am_title = ''Wall, The!!'', am_releaseYear = Some 1979, am_trackCount = Some 26,
      am_artworkUrl = None\<rparr>"

definition the_wall_entry :: AlbumMetadata where
  "the_wall_entry =
     \<lparr>am_title = ''the  WALL?'', am_releaseYear = Some 1979, am_trackCount = Some 26,
      am_artworkUrl = None\<rparr>"

definition floyd :: Artist where
  "floyd = \<lparr>ar_id = ''ar1'', ar_name = ''Pink Floyd'', ar_monitored = True,
             ar_albumCount = 1, ar_lastChecked = None\<rparr>"

definition floyd_state :: MonitorState where
  "floyd_state =
     \<lparr>ms_artists = [floyd], ms_albums = [the_wall_owned], ms_isRunning = False,
      ms_clockReads = 0, ms_uuidsDrawn = 0, ms_lookups = [], ms_handedOver = []\<rparr>"

definition floyd_env :: MonitorEnv where
  "floyd_env =
     \<lparr>me_clock = (\<lambda>n. 1700000000000), me_uuid = (\<lambda>n. ''al2''),
      me_discography = (\<lambda>name. Inr [the_wall_entry, wall_the_entry])\<rparr>"





text \<open>A finished and a running download, and a download client that reports the job
  it is asked about as completed.\<close>

definition job_done :: Download where
  "job_done =
     \<lparr>d_id = ''d1'', d_albumId = ''al1'', d_sabnzbdId = Some ''nzo1'',
      d_indexerName = Some ''idx'', d_status = completed, d_progress = 100,
      d_qualityProfileId = Some ''p1'', d_initiatedAt = 1000, d_completedAt = Some 1500,
      d_errorMessage = None\<rparr>"

definition job_active :: Download where
  "job_active =
     \<lparr>d_id = ''d2'', d_albumId = ''al2'', d_sabnzbdId = Some ''nzo2'',
      d_indexerName = Some ''idx'', d_status = downloading, d_progress = 40,
      d_qualityProfileId = Some ''p1'', d_initiatedAt = 1200, d_completedAt = None,
      d_errorMessage = None\<rparr>"

definition sample_downloads :: DownloadState where
  "sample_downloads = \<lparr>ds_rows = [job_done, job_active], ds_clockReads = 0, ds_polled = []\<rparr>"

definition sample_download_env :: DownloadEnv where
  "sample_download_env =
     \<lparr>de_clock = (\<lambda>n. 2000 + int n), de_configured = True,
      de_poll = (\<lambda>n job. Inr \<lparr>cs_status = completed, cs_progress = 100,
                                  cs_errorMessage = None\<rparr>)\<rparr>"

text \<open>The artist of the sample, checked ten hours before the clock's time.\<close>

definition floyd_recent :: Artist where
  "floyd_recent = floyd\<lparr>ar_lastChecked := Some 1699964000000\<rparr>"

definition recent_state :: MonitorState where
  "recent_state = floyd_state\<lparr>ms_artists := [floyd_recent]\<rparr>"

section \<open>The frame of a monitoring run\<close>

text \<open>What a run leaves alone for the artist \<open>i\<close>: the artist's row, the artist's
  albums, and the lookups and hand-overs recorded for the artist.\<close>

definition sameFor :: "string \<Rightarrow> MonitorState \<Rightarrow> MonitorState \<Rightarrow> bool" where
  "sameFor i s s' \<longleftrightarrow>
     findArtistById (ms_artists s') i = findArtistById (ms_artists s) i
     \<and> findByArtistId (ms_albums s') i = findByArtistId (ms_albums s) i
     \<and> filter (\<lambda>a. a = i) (ms_lookups s') = filter (\<lambda>a. a = i) (ms_lookups s)
     \<and> filter (\<lambda>h. fst h = i) (ms_handedOver s') = filter (\<lambda>h. fst h = i) (ms_handedOver s)"


section \<open>Ranking: the additive score and the stable order\<close>









lemma toUpperCase_simps [simp]:
  "toUpperCase ''flac'' = ''FLAC''" "toUpperCase ''FLAC'' = ''FLAC''"
  "toUpperCase ''MP3'' = ''MP3''"
  by (simp_all add: toUpperCase_def toUpperChar_def lower_letters_def upper_letters_def)






section \<open>Filter soundness\<close>

text \<open>
  Claim C2, as the code has it. A single candidate passes the filter exactly when its
  format is listed in the profile (compared in upper case), and the minimum bitrate is
  unset or 0, or the candidate's bitrate is absent, 0 or \<open>NaN\<close>, or the bitrate is at
  least the minimum, and the maximum size is unset or 0, or the size is \<open>NaN\<close>, or the
  size is at most the maximum times 1024 * 1024. A candidate without a bitrate is never
  rejected by the bitrate rule.
\<close>

theorem filterResults_single_iff:
  "filterResults [c] p \<noteq> [] \<longleftrightarrow>
     toUpperCase (q_format (sr_quality c)) \<in> toUpperCase ` set (qp_formats p)
     \<and> (qp_minBitrate p \<in> {None, Some 0}
        \<or> q_bitrate (sr_quality c) \<in> {None, Some NaN, Some (Num 0)}
        \<or> (\<exists>b m. q_bitrate (sr_quality c) = Some (Num b) \<and> qp_minBitrate p = Some m \<and> b \<ge> m))
     \<and> (qp_maxFileSize p \<in> {None, Some 0} \<or> sr_size c = NaN
        \<or> (\<exists>s m. sr_size c = Num s \<and> qp_maxFileSize p = Some m \<and> s \<le> m * 1024 * 1024))"
proof -
  have min_rule:
    "(truthy (map_option Num (qp_minBitrate p)) \<and> truthy (q_bitrate (sr_quality c))
        \<and> js_lt (the (q_bitrate (sr_quality c))) (Num (the (qp_minBitrate p))))
     \<longleftrightarrow> \<not> (qp_minBitrate p \<in> {None, Some 0}
        \<or> q_bitrate (sr_quality c) \<in> {None, Some NaN, Some (Num 0)}
        \<or> (\<exists>b m. q_bitrate (sr_quality c) = Some (Num b) \<and> qp_minBitrate p = Some m \<and> b \<ge> m))"
  proof (cases "qp_minBitrate p")
    case None
    then show ?thesis by simp
  next
    case (Some m)
    show ?thesis
    proof (cases "q_bitrate (sr_quality c)")
      case None
      then show ?thesis by simp
    next
      case (Some v)
      with \<open>qp_minBitrate p = Some m\<close> show ?thesis by (cases v) auto
    qed
  qed
  have max_rule:
    "(truthy (map_option Num (qp_maxFileSize p))
        \<and> js_gt (sr_size c) (Num (the (qp_maxFileSize p) * 1024 * 1024)))
     \<longleftrightarrow> \<not> (qp_maxFileSize p \<in> {None, Some 0} \<or> sr_size c = NaN
        \<or> (\<exists>s m. sr_size c = Num s \<and> qp_maxFileSize p = Some m \<and> s \<le> m * 1024 * 1024))"
  proof (cases "qp_maxFileSize p")
    case None
    then show ?thesis by simp
  next
    case (Some m)
    then show ?thesis by (cases "sr_size c") auto
  qed
  have "filterResults [c] p \<noteq> [] \<longleftrightarrow> filterAccepts p c"
    by (simp add: filterResults_def)
  also have "\<dots> \<longleftrightarrow> toUpperCase (q_format (sr_quality c)) \<in> toUpperCase ` set (qp_formats p)
     \<and> \<not> (truthy (map_option Num (qp_minBitrate p)) \<and> truthy (q_bitrate (sr_quality c))
        \<and> js_lt (the (q_bitrate (sr_quality c))) (Num (the (qp_minBitrate p))))
     \<and> \<not> (truthy (map_option Num (qp_maxFileSize p))
        \<and> js_gt (sr_size c) (Num (the (qp_maxFileSize p) * 1024 * 1024)))"
    unfolding filterAccepts_def Let_def by auto
  finally show ?thesis unfolding min_rule max_rule by blast
qed

theorem filterResults_single_iff_witness:
  "filterResults [candidate_D] zero_max_profile = [candidate_D]
   \<and> filterResults [candidate_B] flac_mp3_profile = []"
  using filterResults_single_iff[of candidate_D zero_max_profile]
        filterResults_single_iff[of candidate_B flac_mp3_profile]
  by (simp add: filterResults_def filterAccepts_def candidate_D_def candidate_B_def
        zero_max_profile_def flac_mp3_profile_def)

text \<open>
  As the specification states the rule, a size bound of 0 would reject every candidate
  that is not empty; the code reads a bound of 0 as no bound.
\<close>

theorem filterResults_zero_cap_counterexample:
  "\<not> (filterResults [candidate_D] zero_max_profile \<noteq> []
        \<longleftrightarrow> spec_filter_accepts zero_max_profile candidate_D)"
  by (simp add: filterResults_def filterAccepts_def spec_filter_accepts_def
        candidate_D_def zero_max_profile_def)

section \<open>The comparison of titles in the monitoring pass\<close>










section \<open>The normalizer: size, age, format and bitrate\<close>


















section \<open>The fan-out search\<close>








section \<open>Downloads: terminal status and the completion time\<close>

lemma find_map_other:
  assumes "\<And>row. key (f row) = key row" and "i \<noteq> j"
  shows "find (\<lambda>row. key row = i) (map (\<lambda>row. if key row = j then f row else row) rows)
         = find (\<lambda>row. key row = i) rows"
  using assms by (induction rows) auto

lemma find_map_same:
  assumes "\<And>row. key (f row) = key row"
  shows "find (\<lambda>row. key row = i) (map (\<lambda>row. if key row = i then f row else row) rows)
         = map_option f (find (\<lambda>row. key row = i) rows)"
  using assms by (induction rows) auto

lemma applyDownloadUpdates_id [simp]: "d_id (applyDownloadUpdates u row) = d_id row"
  by (simp add: applyDownloadUpdates_def)

lemma updateDownload_other:
  "i \<noteq> j \<Longrightarrow> findDownloadById (snd (updateDownload j u rows)) i = findDownloadById rows i"
  unfolding updateDownload_def findDownloadById_def Let_def
  by (simp add: find_map_other[where key = d_id])

lemma updateStatus_other:
  "i \<noteq> j \<Longrightarrow> findDownloadById (snd (updateStatus now j st pr rows)) i = findDownloadById rows i"
  unfolding updateStatus_def Let_def by (simp add: updateDownload_other)

lemma updateDownload_found:
  assumes "findDownloadById rows i = Some d" and "u \<noteq> noUpdates"
  shows "updateDownload i u rows
         = (Inr (Some (applyDownloadUpdates u d)),
            map (\<lambda>row. if d_id row = i then applyDownloadUpdates u row else row) rows)"
  using assms unfolding updateDownload_def findDownloadById_def Let_def
  by (simp add: find_map_same[where key = d_id])

text \<open>
  Claim C10. \<open>updateStatus\<close> on a stored download writes the status and the progress
  (0 when none is given) and sets \<open>completedAt\<close> to the current time exactly when the
  new status is completed or failed; for queued and downloading \<open>completedAt\<close> stays
  what it was. So a download that \<open>updateStatus\<close> has put in a terminal status has a
  \<open>completedAt\<close>. Rows with another id are not touched.
\<close>

theorem updateStatus_completedAt:
  assumes "findDownloadById rows ident = Some d"
  shows "updateStatus now ident status progress rows =
           (Inr (Some (d\<lparr>d_status := status,
                          d_progress := (case progress of Some p \<Rightarrow> p | None \<Rightarrow> 0),
                          d_completedAt := (if isTerminal status then Some now
                                            else d_completedAt d)\<rparr>)),
            map (\<lambda>row. if d_id row = ident
                        then row\<lparr>d_status := status,
                                 d_progress := (case progress of Some p \<Rightarrow> p | None \<Rightarrow> 0),
                                 d_completedAt := (if isTerminal status then Some now
                                                   else d_completedAt row)\<rparr>
                        else row) rows)
       \<and> (isTerminal status \<longrightarrow>
            (\<forall>d'. fst (updateStatus now ident status progress rows) = Inr (Some d')
                  \<longrightarrow> d_status d' = status \<and> d_completedAt d' = Some now))
       \<and> (\<forall>other. other \<noteq> ident \<longrightarrow>
             findDownloadById (snd (updateStatus now ident status progress rows)) other
             = findDownloadById rows other)"
proof -
  let ?p = "case progress of Some p \<Rightarrow> p | None \<Rightarrow> 0"
  let ?u = "if status = completed \<or> status = failed
            then noUpdates\<lparr>du_status := Some status, du_progress := Some ?p,
                           du_completedAt := Some now\<rparr>
            else noUpdates\<lparr>du_status := Some status, du_progress := Some ?p\<rparr>"
  have ne: "?u \<noteq> noUpdates" by (simp add: noUpdates_def)
  have ap: "\<And>row. applyDownloadUpdates ?u row =
              row\<lparr>d_status := status, d_progress := ?p,
                  d_completedAt := (if isTerminal status then Some now else d_completedAt row)\<rparr>"
    by (simp add: applyDownloadUpdates_def noUpdates_def isTerminal_def)
  have "updateStatus now ident status progress rows = updateDownload ident ?u rows"
    by (simp add: updateStatus_def Let_def)
  then have main: "updateStatus now ident status progress rows =
           (Inr (Some (d\<lparr>d_status := status, d_progress := ?p,
                          d_completedAt := (if isTerminal status then Some now
                                            else d_completedAt d)\<rparr>)),
            map (\<lambda>row. if d_id row = ident
                        then row\<lparr>d_status := status, d_progress := ?p,
                                 d_completedAt := (if isTerminal status then Some now
                                                   else d_completedAt row)\<rparr>
                        else row) rows)"
    using updateDownload_found[OF assms ne] by (simp only: ap)
  have stamped: "isTerminal status \<longrightarrow>
            (\<forall>d'. fst (updateStatus now ident status progress rows) = Inr (Some d')
                  \<longrightarrow> d_status d' = status \<and> d_completedAt d' = Some now)"
    unfolding main by auto
  have frame: "\<forall>other. other \<noteq> ident \<longrightarrow>
             findDownloadById (snd (updateStatus now ident status progress rows)) other
             = findDownloadById rows other"
    using updateStatus_other by blast
  show ?thesis using main stamped frame by (intro conjI)
qed

theorem updateStatus_completedAt_witness:
  "findDownloadById [job_done, job_active] ''d2'' = Some job_active
   \<and> fst (updateStatus 2000 ''d2'' completed (Some 100) [job_done, job_active])
       = Inr (Some (job_active\<lparr>d_status := completed, d_progress := 100,
                                  d_completedAt := Some 2000\<rparr>))
   \<and> fst (updateStatus 2000 ''d2'' queued None [job_done, job_active])
       = Inr (Some (job_active\<lparr>d_status := queued, d_progress := 0,
                                  d_completedAt := d_completedAt job_active\<rparr>))"
proof -
  have found: "findDownloadById [job_done, job_active] ''d2'' = Some job_active"
    by (simp add: findDownloadById_def job_done_def job_active_def)
  have a: "fst (updateStatus 2000 ''d2'' completed (Some 100) [job_done, job_active])
       = Inr (Some (job_active\<lparr>d_status := completed, d_progress := 100,
                                  d_completedAt := Some 2000\<rparr>))"
    using conjunct1[OF updateStatus_completedAt[OF found, of 2000 completed "Some 100"]]
    by (simp add: isTerminal_def)
  have b: "fst (updateStatus 2000 ''d2'' queued None [job_done, job_active])
       = Inr (Some (job_active\<lparr>d_status := queued, d_progress := 0,
                                  d_completedAt := d_completedAt job_active\<rparr>))"
    using conjunct1[OF updateStatus_completedAt[OF found, of 2000 queued None]]
    by (simp add: isTerminal_def)
  show ?thesis using found a b by blast
qed

lemma updateStatus_otherD:
  "updateStatus now j st pr rows = (r, rows') \<Longrightarrow> i \<noteq> j
   \<Longrightarrow> findDownloadById rows' i = findDownloadById rows i"
  using updateStatus_other[of i j now st pr rows] by simp

lemma updateDownload_otherD:
  "updateDownload j u rows = (r, rows') \<Longrightarrow> i \<noteq> j
   \<Longrightarrow> findDownloadById rows' i = findDownloadById rows i"
  using updateDownload_other[of i j u rows] by simp

lemma updateDownloadStatus_frame:
  assumes "i \<noteq> j"
  shows "findDownloadById (ds_rows (snd (updateDownloadStatus env j s))) i
         = findDownloadById (ds_rows s) i"
  using assms
  by (simp add: updateDownloadStatus_def Let_def case_prod_beta updateStatus_other
        updateDownload_other split: option.splits sum.splits)

lemma updateDownloadStatus_terminal:
  assumes "findDownloadById (ds_rows s) ident = Some d" and "isTerminal (d_status d)"
  shows "updateDownloadStatus env ident s = (Inr d, s)"
  using assms by (simp add: updateDownloadStatus_def isTerminal_def)

lemma updateDownloadStatus_keeps:
  assumes "findDownloadById (ds_rows s) ident = Some d" and "isTerminal (d_status d)"
  shows "findDownloadById (ds_rows (snd (updateDownloadStatus env other s))) ident = Some d"
proof (cases "other = ident")
  case True
  then show ?thesis using updateDownloadStatus_terminal[OF assms] assms(1) by simp
next
  case False
  then show ?thesis using updateDownloadStatus_frame[of ident other env s] assms(1) by simp
qed

lemma updateEach_keeps:
  assumes "findDownloadById (ds_rows s) ident = Some d" and "isTerminal (d_status d)"
  shows "findDownloadById (ds_rows (snd (updateEach env ids s))) ident = Some d"
  using assms
proof (induction ids arbitrary: s)
  case Nil
  then show ?case by simp
next
  case (Cons j rest)
  obtain r s' where step: "updateDownloadStatus env j s = (r, s')"
    by (cases "updateDownloadStatus env j s")
  have keep: "findDownloadById (ds_rows s') ident = Some d"
    using updateDownloadStatus_keeps[OF Cons.prems, of env j] step by simp
  have ih: "findDownloadById (ds_rows (snd (updateEach env rest s'))) ident = Some d"
    using Cons.IH[OF keep Cons.prems(2)] .
  show ?case using step ih
    by (cases r) (simp_all add: case_prod_beta)
qed

lemma find_append_Some: "find P xs = Some x \<Longrightarrow> find P (xs @ ys) = Some x"
  by (induction xs) (auto split: if_splits)

lemma createDownload_keeps:
  assumes "findDownloadById rows ident = Some d"
  shows "findDownloadById (snd (createDownload new now dl rows)) ident = Some d"
  using assms by (simp add: createDownload_def Let_def findDownloadById_def find_append_Some)

text \<open>
  Claim C7. When the stored status of a download is completed or failed, a status query
  returns the stored record and leaves the whole state as it is: the table is not
  written and the download client is not asked, so a second query gives the same. No
  status query on any download, no bulk reconciliation and no creation of a download
  changes the record of a terminal download. (Calls run one after the other here; two
  overlapping queries on one download are not modelled.)
\<close>

theorem terminal_status_stable:
  assumes "findDownloadById (ds_rows s) ident = Some d" and "isTerminal (d_status d)"
  shows "updateDownloadStatus env ident s = (Inr d, s)
       \<and> updateDownloadStatus env' ident (snd (updateDownloadStatus env ident s)) = (Inr d, s)
       \<and> ds_polled (snd (updateDownloadStatus env ident s)) = ds_polled s
       \<and> findDownloadById (ds_rows (snd (updateDownloadStatus env other s))) ident = Some d
       \<and> findDownloadById (ds_rows (snd (updateAllActiveDownloads env s))) ident = Some d
       \<and> findDownloadById (snd (createDownload new now dl (ds_rows s))) ident = Some d"
  using updateDownloadStatus_terminal[OF assms] updateDownloadStatus_keeps[OF assms]
        updateEach_keeps[OF assms] createDownload_keeps[OF assms(1)]
  by (simp add: updateAllActiveDownloads_def)

lemma sample_jobs [simp]:
  "d_id job_done = ''d1''" "d_id job_active = ''d2''"
  "d_status job_done = completed" "d_status job_active = downloading"
  "d_sabnzbdId job_active = Some ''nzo2''"
  by (simp_all add: job_done_def job_active_def)

lemma sample_poll:
  "updateDownloadStatus sample_download_env ''d2'' sample_downloads
   = (Inr (job_active\<lparr>d_status := completed, d_progress := 100, d_completedAt := Some 2000\<rparr>),
      \<lparr>ds_rows = [job_done, job_active\<lparr>d_status := completed, d_progress := 100,
                                         d_completedAt := Some 2000\<rparr>],
       ds_clockReads = 1, ds_polled = [''nzo2'']\<rparr>)"
proof -
  have found: "findDownloadById [job_done, job_active] ''d2'' = Some job_active"
    by (simp add: findDownloadById_def)
  have upd: "updateStatus 2000 ''d2'' completed (Some 100) [job_done, job_active]
       = (Inr (Some (job_active\<lparr>d_status := completed, d_progress := 100,
                                   d_completedAt := Some 2000\<rparr>)),
          [job_done, job_active\<lparr>d_status := completed, d_progress := 100,
                                 d_completedAt := Some 2000\<rparr>])"
    using updateStatus_other[of "''d1''" "''d2''"] updateDownload_found[OF found]
    by (simp add: updateStatus_def Let_def noUpdates_def applyDownloadUpdates_def)
  show ?thesis
    by (simp add: updateDownloadStatus_def sample_downloads_def sample_download_env_def found upd)
qed

theorem terminal_status_stable_witness:
  "findDownloadById (ds_rows sample_downloads) ''d1'' = Some job_done
   \<and> isTerminal (d_status job_done)
   \<and> updateDownloadStatus sample_download_env ''d1'' sample_downloads
       = (Inr job_done, sample_downloads)
   \<and> findDownloadById
        (ds_rows (snd (updateAllActiveDownloads sample_download_env sample_downloads))) ''d1''
       = Some job_done
   \<and> ds_polled (snd (updateAllActiveDownloads sample_download_env sample_downloads))
       = [''nzo2'']"
proof -
  have found: "findDownloadById (ds_rows sample_downloads) ''d1'' = Some job_done"
    by (simp add: findDownloadById_def sample_downloads_def)
  have fin: "isTerminal (d_status job_done)"
    by (simp add: isTerminal_def)
  have active: "map d_id (findActive (ds_rows sample_downloads)) = [''d2'']"
    by (simp add: findActive_def sample_downloads_def)
  have polled: "ds_polled (snd (updateAllActiveDownloads sample_download_env sample_downloads))
                = [''nzo2'']"
    by (simp add: updateAllActiveDownloads_def active sample_poll)
  from terminal_status_stable[OF found fin, of sample_download_env sample_download_env]
  have "updateDownloadStatus sample_download_env ''d1'' sample_downloads
          = (Inr job_done, sample_downloads)
        \<and> findDownloadById
             (ds_rows (snd (updateAllActiveDownloads sample_download_env sample_downloads))) ''d1''
            = Some job_done"
    by blast
  then show ?thesis using found fin polled by blast
qed
section \<open>Quality profiles: the default is exclusive\<close>

lemma clearDefaults_ids [simp]: "map qp_id (clearDefaults rows) = map qp_id rows"
  by (simp add: clearDefaults_def)

lemma clearDefaults_names [simp]: "map qp_name (clearDefaults rows) = map qp_name rows"
  by (simp add: clearDefaults_def)

lemma clearDefaults_none [simp]: "filter qp_isDefault (clearDefaults rows) = []"
  by (induction rows) (simp_all add: clearDefaults_def)

lemma atMostOne_clear [simp]: "atMostOneDefault (clearDefaults rows)"
  by (simp add: atMostOneDefault_def)

lemma applyProfileUpdates_id [simp]: "qp_id (applyProfileUpdates u row) = qp_id row"
  by (simp add: applyProfileUpdates_def)

lemma map_if_ids:
  "(\<And>row. qp_id (f row) = qp_id row)
   \<Longrightarrow> map (qp_id \<circ> (\<lambda>row. if qp_id row = i then f row else row)) rows = map qp_id rows"
  by (induction rows) auto

text \<open>With distinct ids, rewriting the rows of one id touches at most one row.\<close>

lemma defaults_after_set:
  assumes "distinct (map qp_id rows)" and "filter qp_isDefault rows = []"
  shows "length (filter qp_isDefault (map (\<lambda>row. if qp_id row = i then f row else row) rows)) \<le> 1"
  using assms
proof (induction rows)
  case Nil
  then show ?case by simp
next
  case (Cons r rows)
  show ?case
  proof (cases "qp_id r = i")
    case True
    have "qp_id r \<notin> set (map qp_id rows)" using Cons.prems(1) by simp
    then have "\<forall>row\<in>set rows. qp_id row \<noteq> i" using True by (metis image_eqI set_map)
    then have "map (\<lambda>row. if qp_id row = i then f row else row) rows = rows"
      by (induction rows) auto
    then show ?thesis using True Cons.prems(2) by (auto split: if_splits)
  next
    case False
    then show ?thesis using Cons by (auto split: if_splits)
  qed
qed

lemma defaults_after_unset:
  assumes "\<And>row. qp_isDefault (f row) \<Longrightarrow> qp_isDefault row"
  shows "length (filter qp_isDefault (map (\<lambda>row. if qp_id row = i then f row else row) rows))
         \<le> length (filter qp_isDefault rows)"
  using assms by (induction rows) auto

lemma setDefault_atMostOne:
  "distinct (map qp_id rows) \<Longrightarrow> atMostOneDefault (snd (setDefault i rows))"
  unfolding setDefault_def Let_def atMostOneDefault_def
  using defaults_after_set[of "clearDefaults rows" i "\<lambda>row. row\<lparr>qp_isDefault := True\<rparr>"]
  by simp

lemma setDefault_ids [simp]: "map qp_id (snd (setDefault i rows)) = map qp_id rows"
  by (simp add: setDefault_def Let_def map_if_ids)

lemma updateProfileRow_ids [simp]: "map qp_id (snd (updateProfileRow i u rows)) = map qp_id rows"
  by (simp add: updateProfileRow_def Let_def map_if_ids split: option.splits)

lemma updateProfileRow_atMostOne:
  assumes "distinct (map qp_id rows)" and "atMostOneDefault rows"
  shows "atMostOneDefault (snd (updateProfileRow i u rows))"
proof (cases "pu_isDefault u")
  case None
  have "length (filter qp_isDefault
            (map (\<lambda>row. if qp_id row = i then applyProfileUpdates u row else row) rows))
        \<le> length (filter qp_isDefault rows)"
    by (rule defaults_after_unset) (simp add: applyProfileUpdates_def None)
  then show ?thesis using assms(2) None
    by (simp add: updateProfileRow_def Let_def atMostOneDefault_def)
next
  case (Some b)
  show ?thesis
  proof (cases b)
    case True
    have "length (filter qp_isDefault
            (map (\<lambda>row. if qp_id row = i then applyProfileUpdates u row else row)
               (clearDefaults rows))) \<le> 1"
      using defaults_after_set[of "clearDefaults rows" i "applyProfileUpdates u"] assms(1)
      by simp
    then show ?thesis using Some True
      by (simp add: updateProfileRow_def Let_def atMostOneDefault_def)
  next
    case False
    have "length (filter qp_isDefault
            (map (\<lambda>row. if qp_id row = i then applyProfileUpdates u row else row) rows))
        \<le> length (filter qp_isDefault rows)"
      by (rule defaults_after_unset) (simp add: applyProfileUpdates_def Some False)
    then show ?thesis using assms(2) Some False
      by (simp add: updateProfileRow_def Let_def atMostOneDefault_def)
  qed
qed

lemma createProfileRow_atMostOne:
  assumes "atMostOneDefault rows"
  shows "atMostOneDefault (snd (createProfileRow i now p rows))"
  using assms by (simp add: createProfileRow_def Let_def atMostOneDefault_def)

lemma createProfileRow_distinct:
  assumes "distinct (map qp_id rows)"
  shows "distinct (map qp_id (snd (createProfileRow i now p rows)))"
  using assms by (auto simp: createProfileRow_def Let_def)


lemma deleteProfileRow_atMostOne:
  "atMostOneDefault rows \<Longrightarrow> atMostOneDefault (deleteProfileRow i rows)"
proof -
  have "length (filter qp_isDefault (filter (\<lambda>row. qp_id row \<noteq> i) rows))
        \<le> length (filter qp_isDefault rows)"
    by (induction rows) auto
  then show "atMostOneDefault rows \<Longrightarrow> atMostOneDefault (deleteProfileRow i rows)"
    by (simp add: atMostOneDefault_def deleteProfileRow_def)
qed

lemma deleteProfileRow_distinct:
  "distinct (map qp_id rows) \<Longrightarrow> distinct (map qp_id (deleteProfileRow i rows))"
  by (simp add: deleteProfileRow_def distinct_map_filter)

text \<open>The service operations end in the table they were given or in the table their
  repository call leaves.\<close>

lemma createProfile_table:
  "snd (createProfile i now p rows) = rows
   \<or> snd (createProfile i now p rows) = snd (createProfileRow i now p rows)"
  by (simp add: createProfile_def split: prod.splits sum.splits)

lemma updateProfile_table:
  "snd (updateProfile i u rows) = rows
   \<or> snd (updateProfile i u rows) = snd (updateProfileRow i u rows)"
  by (simp add: updateProfile_def split: prod.splits sum.splits option.splits)

lemma setDefaultProfile_table:
  "snd (setDefaultProfile i rows) = rows
   \<or> snd (setDefaultProfile i rows) = snd (setDefault i rows)"
  by (simp add: setDefaultProfile_def split: prod.splits option.splits)

lemma deleteProfile_table:
  "snd (deleteProfile i rows) = rows \<or> snd (deleteProfile i rows) = deleteProfileRow i rows"
  by (simp add: deleteProfile_def split: option.splits)

lemma setDefault_flags:
  "r \<in> set (snd (setDefault i rows)) \<Longrightarrow> qp_isDefault r \<longleftrightarrow> qp_id r = i"
  by (auto simp: setDefault_def Let_def clearDefaults_def)

lemma setDefault_result:
  "fst (setDefault i rows) = findProfileById (snd (setDefault i rows)) i"
  by (simp add: setDefault_def Let_def)

lemma setDefault_findDefault:
  "findDefault (snd (setDefault i rows)) = findProfileById (snd (setDefault i rows)) i"
  unfolding findDefault_def findProfileById_def
  by (rule find_cong) (simp_all add: setDefault_flags)

lemma findProfileById_None_iff:
  "findProfileById rows i = None \<longleftrightarrow> i \<notin> set (map qp_id rows)"
  by (auto simp: findProfileById_def find_None_iff)

lemma setDefault_exists:
  "findProfileById rows i \<noteq> None \<Longrightarrow> findProfileById (snd (setDefault i rows)) i \<noteq> None"
  by (simp add: findProfileById_None_iff)

lemma setDefaultProfile_succeeds:
  assumes "distinct (map qp_id rows)" and "setDefaultProfile p2 rows = (Inr q, rows')"
  shows "findDefault rows' = Some q \<and> qp_id q = p2 \<and> qp_isDefault q
         \<and> (\<forall>r\<in>set rows'. qp_isDefault r \<longrightarrow> r = q)"
proof -
  from assms(2) have rows': "rows' = snd (setDefault p2 rows)"
    and q: "fst (setDefault p2 rows) = Some q"
    by (auto simp: setDefaultProfile_def split: option.splits prod.splits)
  have found: "findProfileById rows' p2 = Some q"
    using q setDefault_result[of p2 rows] rows' by simp
  then have qin: "q \<in> set rows'" and qid: "qp_id q = p2"
    by (auto simp: findProfileById_def find_Some_iff)
  have dis: "distinct (map qp_id rows')" using assms(1) rows' by simp
  have uniq: "\<forall>r\<in>set rows'. qp_isDefault r \<longrightarrow> r = q"
  proof (intro ballI impI)
    fix r assume r: "r \<in> set rows'" "qp_isDefault r"
    then have "qp_id r = p2" using setDefault_flags[of r p2 rows] rows' by simp
    then have "qp_id r = qp_id q" using qid by simp
    then show "r = q" using dis r(1) qin by (meson distinct_map inj_onD)
  qed
  have "qp_isDefault q" using setDefault_flags[of q p2 rows] qin qid rows' by simp
  then show ?thesis using found setDefault_findDefault[of p2 rows] rows' qid uniq by simp
qed

lemma setDefaultProfile_total:
  assumes "findProfileById rows p2 \<noteq> None"
  shows "\<not> isl (fst (setDefaultProfile p2 rows))"
proof -
  obtain q where "fst (setDefault p2 rows) = Some q"
    using setDefault_exists[OF assms] setDefault_result[of p2 rows] by auto
  then show ?thesis using assms
    by (auto simp: setDefaultProfile_def split: option.splits prod.splits)
qed

text \<open>
  Claim C8. In a table whose ids are distinct (\<open>id\<close> is the primary key): when
  \<open>setDefaultProfile p2\<close> succeeds, \<open>findDefault\<close> gives the profile returned, its id is
  \<open>p2\<close>, it is the default and no other row is; the call succeeds whenever the profile
  exists; and whatever the table was, \<open>setDefault\<close> leaves at most one default. Create,
  update, set-default and delete, in the repository and in the service, keep the
  invariant that at most one profile is the default, and keep the ids distinct.
\<close>

theorem default_profile_exclusive:
  assumes "distinct (map qp_id rows)"
  shows "(\<forall>q rows'. setDefaultProfile p2 rows = (Inr q, rows') \<longrightarrow>
            findDefault rows' = Some q \<and> qp_id q = p2 \<and> qp_isDefault q
            \<and> (\<forall>r\<in>set rows'. qp_isDefault r \<longrightarrow> r = q))
       \<and> (findProfileById rows p2 \<noteq> None \<longrightarrow> \<not> isl (fst (setDefaultProfile p2 rows)))
       \<and> atMostOneDefault (snd (setDefault p2 rows))
       \<and> (atMostOneDefault rows \<longrightarrow>
            atMostOneDefault (snd (createProfileRow ident now new rows))
            \<and> atMostOneDefault (snd (updateProfileRow target updates rows))
            \<and> atMostOneDefault (snd (createProfile ident now new rows))
            \<and> atMostOneDefault (snd (updateProfile target updates rows))
            \<and> atMostOneDefault (snd (setDefaultProfile p2 rows))
            \<and> atMostOneDefault (snd (deleteProfile target rows)))
       \<and> distinct (map qp_id (snd (createProfile ident now new rows)))
       \<and> distinct (map qp_id (snd (updateProfile target updates rows)))
       \<and> distinct (map qp_id (snd (setDefaultProfile p2 rows)))
       \<and> distinct (map qp_id (snd (deleteProfile target rows)))"
proof -
  have a: "\<forall>q rows'. setDefaultProfile p2 rows = (Inr q, rows') \<longrightarrow>
            findDefault rows' = Some q \<and> qp_id q = p2 \<and> qp_isDefault q
            \<and> (\<forall>r\<in>set rows'. qp_isDefault r \<longrightarrow> r = q)"
    using setDefaultProfile_succeeds[OF assms] by blast
  have b: "findProfileById rows p2 \<noteq> None \<longrightarrow> \<not> isl (fst (setDefaultProfile p2 rows))"
    using setDefaultProfile_total by blast
  have c: "atMostOneDefault (snd (setDefault p2 rows))"
    using setDefault_atMostOne[OF assms] .
  have d: "atMostOneDefault rows \<longrightarrow>
            atMostOneDefault (snd (createProfileRow ident now new rows))
            \<and> atMostOneDefault (snd (updateProfileRow target updates rows))
            \<and> atMostOneDefault (snd (createProfile ident now new rows))
            \<and> atMostOneDefault (snd (updateProfile target updates rows))
            \<and> atMostOneDefault (snd (setDefaultProfile p2 rows))
            \<and> atMostOneDefault (snd (deleteProfile target rows))"
  proof
    assume inv: "atMostOneDefault rows"
    have 1: "atMostOneDefault (snd (createProfileRow ident now new rows))"
      using createProfileRow_atMostOne[OF inv] .
    have 2: "atMostOneDefault (snd (updateProfileRow target updates rows))"
      using updateProfileRow_atMostOne[OF assms inv] .
    have 3: "atMostOneDefault (snd (createProfile ident now new rows))"
      using createProfile_table[of ident now new rows] 1 inv by auto
    have 4: "atMostOneDefault (snd (updateProfile target updates rows))"
      using updateProfile_table[of target updates rows] 2 inv by auto
    have 5: "atMostOneDefault (snd (setDefaultProfile p2 rows))"
      using setDefaultProfile_table[of p2 rows] c inv by auto
    have 6: "atMostOneDefault (snd (deleteProfile target rows))"
      using deleteProfile_table[of target rows] deleteProfileRow_atMostOne[OF inv] inv by auto
    from 1 2 3 4 5 6 show "atMostOneDefault (snd (createProfileRow ident now new rows))
            \<and> atMostOneDefault (snd (updateProfileRow target updates rows))
            \<and> atMostOneDefault (snd (createProfile ident now new rows))
            \<and> atMostOneDefault (snd (updateProfile target updates rows))
            \<and> atMostOneDefault (snd (setDefaultProfile p2 rows))
            \<and> atMostOneDefault (snd (deleteProfile target rows))"
      by (intro conjI)
  qed
  have e: "distinct (map qp_id (snd (createProfile ident now new rows)))"
    using createProfile_table[of ident now new rows] createProfileRow_distinct[OF assms] assms
    by auto
  have f: "distinct (map qp_id (snd (updateProfile target updates rows)))"
    using updateProfile_table[of target updates rows] assms by auto
  have g: "distinct (map qp_id (snd (setDefaultProfile p2 rows)))"
    using setDefaultProfile_table[of p2 rows] assms by auto
  have h: "distinct (map qp_id (snd (deleteProfile target rows)))"
    using deleteProfile_table[of target rows] deleteProfileRow_distinct[OF assms] assms by auto
  show ?thesis using a b c d e f g h by (intro conjI)
qed

theorem default_profile_exclusive_witness:
  "distinct (map qp_id [flac_mp3_profile, zero_max_profile])
   \<and> setDefaultProfile ''p2'' [flac_mp3_profile, zero_max_profile]
       = (Inr (zero_max_profile\<lparr>qp_isDefault := True\<rparr>),
          [flac_mp3_profile\<lparr>qp_isDefault := False\<rparr>,
           zero_max_profile\<lparr>qp_isDefault := True\<rparr>])
   \<and> findDefault (snd (setDefaultProfile ''p2'' [flac_mp3_profile, zero_max_profile]))
       = Some (zero_max_profile\<lparr>qp_isDefault := True\<rparr>)
   \<and> atMostOneDefault [flac_mp3_profile, zero_max_profile]"
  using default_profile_exclusive[of "[flac_mp3_profile, zero_max_profile]" "''p2''"]
  by (simp add: setDefaultProfile_def setDefault_def clearDefaults_def findProfileById_def
        findDefault_def atMostOneDefault_def flac_mp3_profile_def zero_max_profile_def)

section \<open>Monitoring: the 24 hour throttle\<close>

lemma sameFor_refl [simp]: "sameFor i s s"
  by (simp add: sameFor_def)

lemma sameFor_trans: "sameFor i s s' \<Longrightarrow> sameFor i s' s'' \<Longrightarrow> sameFor i s s''"
  by (simp add: sameFor_def)

lemma skip_step:
  assumes "ar_lastChecked artist = Some t"
    and "me_clock env (ms_clockReads s) - t < 24 * 60 * 60 * 1000"
  shows "checkArtistForNewReleases env artist s
         = (Inr (), s\<lparr>ms_clockReads := Suc (ms_clockReads s)\<rparr>)"
proof -
  have "(of_int (me_clock env (ms_clockReads s) - t) :: rat) / (1000 * 60 * 60) < 24"
    using assms(2) by (simp add: divide_less_eq)
  then show ?thesis using assms(1) by (simp add: checkArtistForNewReleases_def Let_def)
qed

lemma incrementAlbumCount_other:
  "i \<noteq> j \<Longrightarrow> findArtistById (incrementAlbumCount j rows) i = findArtistById rows i"
  unfolding findArtistById_def incrementAlbumCount_def
  by (rule find_map_other) simp_all

lemma setLastChecked_other:
  "i \<noteq> j \<Longrightarrow> findArtistById (setLastChecked j now rows) i = findArtistById rows i"
  unfolding findArtistById_def setLastChecked_def
  by (rule find_map_other) simp_all

lemma processNewRelease_frame:
  "ar_id artist \<noteq> i \<Longrightarrow> sameFor i s (snd (processNewRelease env artist am s))"
  by (simp add: processNewRelease_def Let_def sameFor_def incrementAlbumCount_other
        findByArtistId_def)

lemma processAll_frame:
  "ar_id artist \<noteq> i \<Longrightarrow> sameFor i s (snd (processAll env artist ams s))"
proof (induction ams arbitrary: s)
  case Nil
  then show ?case by simp
next
  case (Cons am ams)
  obtain r s' where step: "processNewRelease env artist am s = (r, s')"
    by (cases "processNewRelease env artist am s")
  have 1: "sameFor i s s'" using processNewRelease_frame[OF Cons.prems, of s env am] step by simp
  have 2: "sameFor i s' (snd (processAll env artist ams s'))" using Cons.IH[OF Cons.prems] .
  show ?case using step 1 2 by (cases r) (auto intro: sameFor_trans)
qed

lemma checkArtist_frame:
  assumes "ar_id artist \<noteq> i"
  shows "sameFor i s (snd (checkArtistForNewReleases env artist s))"
proof -
  let ?s0 = "case ar_lastChecked artist of None \<Rightarrow> s
             | Some t \<Rightarrow> s\<lparr>ms_clockReads := Suc (ms_clockReads s)\<rparr>"
  let ?s1 = "?s0\<lparr>ms_lookups := ms_lookups ?s0 @ [ar_id artist]\<rparr>"
  have s0: "sameFor i s ?s0" by (simp add: sameFor_def split: option.splits)
  have s1: "sameFor i s ?s1" using assms by (simp add: sameFor_def split: option.splits)
  have all: "\<And>ams. sameFor i s (snd (processAll env artist ams ?s1))"
    using sameFor_trans[OF s1 processAll_frame[OF assms]] .
  have fin: "\<And>ams now. sameFor i s
        ((snd (processAll env artist ams ?s1))
           \<lparr>ms_artists := setLastChecked (ar_id artist) now
                            (ms_artists (snd (processAll env artist ams ?s1))),
            ms_clockReads := Suc (ms_clockReads (snd (processAll env artist ams ?s1)))\<rparr>)"
    using all assms by (simp add: sameFor_def setLastChecked_other)
  show ?thesis
    unfolding checkArtistForNewReleases_def Let_def
    using s0 s1 all fin
    by (simp add: case_prod_beta split: sum.splits)
qed


lemma checkEach_frame:
  "\<forall>a\<in>set artists. ar_id a \<noteq> i \<Longrightarrow> sameFor i s (checkEach env artists s)"
proof (induction artists arbitrary: s)
  case Nil
  then show ?case by simp
next
  case (Cons a rest)
  have 1: "sameFor i s (snd (checkArtistForNewReleases env a s))"
    using checkArtist_frame[of a i s env] Cons.prems by simp
  have 2: "sameFor i (snd (checkArtistForNewReleases env a s))
             (checkEach env rest (snd (checkArtistForNewReleases env a s)))"
    using Cons.IH Cons.prems by simp
  show ?case using sameFor_trans[OF 1 2] by simp
qed

lemma checkEach_append:
  "checkEach env (xs @ ys) s = checkEach env ys (checkEach env xs s)"
  by (induction xs arbitrary: s) simp_all

lemma sameFor_tick: "sameFor i s (s\<lparr>ms_clockReads := n\<rparr>)"
  by (simp add: sameFor_def)

lemma sameFor_flag: "sameFor i s (s\<lparr>ms_isRunning := b\<rparr>)"
  by (simp add: sameFor_def)

text \<open>
  Claim C9. For an artist whose last check is less than 24 hours before the clock's time
  at the start of the check: \<open>checkArtistForNewReleases\<close> returns at once and the state
  is as before but for the one reading of the clock, so no discography is requested, no
  album row is written, nothing is handed to the download service, and the artist's
  last-checked time is what it was. \<open>checkArtist\<close> on that artist does the same (or
  refuses an artist who is not monitored, changing nothing). In a monitoring pass the
  artist's turn is the same single reading of the clock between the checks of the
  artists before and after; and when the ids are distinct, the artist's row, albums,
  lookups and hand-overs are after the pass what they were before.
\<close>

theorem throttled_artist_skipped:
  assumes "ar_lastChecked artist = Some t"
  shows "(me_clock env (ms_clockReads s) - t < 24 * 60 * 60 * 1000 \<longrightarrow>
            checkArtistForNewReleases env artist s
            = (Inr (), s\<lparr>ms_clockReads := Suc (ms_clockReads s)\<rparr>))
       \<and> (me_clock env (ms_clockReads s) - t < 24 * 60 * 60 * 1000
            \<and> findArtistById (ms_artists s) ident = Some artist \<longrightarrow>
            checkArtist env ident s
            = (if ar_monitored artist
               then (Inr (), s\<lparr>ms_clockReads := Suc (ms_clockReads s)\<rparr>)
               else (Inl (NotMonitored (ar_name artist)), s)))
       \<and> (\<not> ms_isRunning s
            \<and> getMonitored (ms_artists s) = before @ artist # after
            \<and> me_clock env (ms_clockReads (checkEach env before (s\<lparr>ms_isRunning := True\<rparr>))) - t
                < 24 * 60 * 60 * 1000 \<longrightarrow>
            checkForNewReleases env s
            = (checkEach env after
                 ((checkEach env before (s\<lparr>ms_isRunning := True\<rparr>))
                    \<lparr>ms_clockReads :=
                       Suc (ms_clockReads (checkEach env before (s\<lparr>ms_isRunning := True\<rparr>)))\<rparr>))
              \<lparr>ms_isRunning := False\<rparr>
            \<and> (distinct (map ar_id (ms_artists s)) \<longrightarrow>
                 sameFor (ar_id artist) s (checkForNewReleases env s)))"
proof -
  let ?day = "24 * 60 * 60 * 1000 :: int"
  have one: "me_clock env (ms_clockReads s) - t < ?day \<longrightarrow>
            checkArtistForNewReleases env artist s
            = (Inr (), s\<lparr>ms_clockReads := Suc (ms_clockReads s)\<rparr>)"
    using skip_step[OF assms] by blast
  have two: "me_clock env (ms_clockReads s) - t < ?day
            \<and> findArtistById (ms_artists s) ident = Some artist \<longrightarrow>
            checkArtist env ident s
            = (if ar_monitored artist
               then (Inr (), s\<lparr>ms_clockReads := Suc (ms_clockReads s)\<rparr>)
               else (Inl (NotMonitored (ar_name artist)), s))"
    using skip_step[OF assms] by (simp add: checkArtist_def)
  have three: "\<not> ms_isRunning s
            \<and> getMonitored (ms_artists s) = before @ artist # after
            \<and> me_clock env (ms_clockReads (checkEach env before (s\<lparr>ms_isRunning := True\<rparr>))) - t
                < ?day \<longrightarrow>
            checkForNewReleases env s
            = (checkEach env after
                 ((checkEach env before (s\<lparr>ms_isRunning := True\<rparr>))
                    \<lparr>ms_clockReads :=
                       Suc (ms_clockReads (checkEach env before (s\<lparr>ms_isRunning := True\<rparr>)))\<rparr>))
              \<lparr>ms_isRunning := False\<rparr>
            \<and> (distinct (map ar_id (ms_artists s)) \<longrightarrow>
                 sameFor (ar_id artist) s (checkForNewReleases env s))"
  proof (intro impI, elim conjE)
    let ?s1 = "s\<lparr>ms_isRunning := True\<rparr>"
    let ?s2 = "checkEach env before ?s1"
    let ?s3 = "?s2\<lparr>ms_clockReads := Suc (ms_clockReads ?s2)\<rparr>"
    let ?s4 = "checkEach env after ?s3"
    assume idle: "\<not> ms_isRunning s"
      and mon: "getMonitored (ms_artists s) = before @ artist # after"
      and recent: "me_clock env (ms_clockReads ?s2) - t < ?day"
    have mid: "checkArtistForNewReleases env artist ?s2 = (Inr (), ?s3)"
      using skip_step[OF assms recent] .
    have run: "checkForNewReleases env s = ?s4\<lparr>ms_isRunning := False\<rparr>"
      using idle mon mid by (simp add: checkForNewReleases_def Let_def checkEach_append)
    have frame: "sameFor (ar_id artist) s (checkForNewReleases env s)"
      if dis: "distinct (map ar_id (ms_artists s))"
    proof -
      have "distinct (map ar_id (getMonitored (ms_artists s)))"
        using dis by (simp add: getMonitored_def distinct_map_filter)
      then have others: "\<forall>a\<in>set before. ar_id a \<noteq> ar_id artist"
        "\<forall>a\<in>set after. ar_id a \<noteq> ar_id artist"
        unfolding mon by (auto simp: image_iff)
      have a: "sameFor (ar_id artist) s ?s1" by (rule sameFor_flag)
      have b: "sameFor (ar_id artist) ?s1 ?s2" using checkEach_frame[OF others(1)] .
      have c: "sameFor (ar_id artist) ?s2 ?s3" by (rule sameFor_tick)
      have d: "sameFor (ar_id artist) ?s3 ?s4" using checkEach_frame[OF others(2)] .
      have e: "sameFor (ar_id artist) ?s4 (?s4\<lparr>ms_isRunning := False\<rparr>)" by (rule sameFor_flag)
      show ?thesis unfolding run
        using sameFor_trans[OF sameFor_trans[OF sameFor_trans[OF sameFor_trans[OF a b] c] d] e] .
    qed
    show "checkForNewReleases env s = ?s4\<lparr>ms_isRunning := False\<rparr>
          \<and> (distinct (map ar_id (ms_artists s)) \<longrightarrow>
                 sameFor (ar_id artist) s (checkForNewReleases env s))"
      using run frame by blast
  qed
  show ?thesis using one two three by (intro conjI)
qed

theorem throttled_artist_skipped_witness:
  "ar_lastChecked floyd_recent = Some 1699964000000
   \<and> me_clock floyd_env (ms_clockReads recent_state) - 1699964000000 < 24 * 60 * 60 * 1000
   \<and> checkArtistForNewReleases floyd_env floyd_recent recent_state
       = (Inr (), recent_state\<lparr>ms_clockReads := 1\<rparr>)
   \<and> checkArtist floyd_env ''ar1'' recent_state
       = (Inr (), recent_state\<lparr>ms_clockReads := 1\<rparr>)
   \<and> checkForNewReleases floyd_env recent_state = recent_state\<lparr>ms_clockReads := 1\<rparr>"
proof -
  have last: "ar_lastChecked floyd_recent = Some 1699964000000"
    by (simp add: floyd_recent_def)
  have recent: "me_clock floyd_env (ms_clockReads recent_state) - 1699964000000
                < 24 * 60 * 60 * 1000"
    by (simp add: floyd_env_def)
  have found: "findArtistById (ms_artists recent_state) ''ar1'' = Some floyd_recent"
    by (simp add: findArtistById_def recent_state_def floyd_recent_def floyd_def)
  have mon: "ar_monitored floyd_recent" by (simp add: floyd_recent_def floyd_def)
  have listed: "getMonitored (ms_artists recent_state) = [] @ floyd_recent # []"
    by (simp add: getMonitored_def recent_state_def mon)
  have idle: "\<not> ms_isRunning recent_state"
    by (simp add: recent_state_def floyd_state_def)
  have recent': "me_clock floyd_env
                   (ms_clockReads (checkEach floyd_env [] (recent_state\<lparr>ms_isRunning := True\<rparr>)))
                 - 1699964000000 < 24 * 60 * 60 * 1000"
    by (simp add: floyd_env_def)
  have reads: "ms_clockReads recent_state = 0"
    by (simp add: recent_state_def floyd_state_def)
  have flag: "recent_state\<lparr>ms_clockReads := Suc 0, ms_isRunning := False\<rparr>
              = recent_state\<lparr>ms_clockReads := Suc 0\<rparr>"
    by (simp add: recent_state_def floyd_state_def)
  show ?thesis
    using throttled_artist_skipped[OF last, of floyd_env recent_state "''ar1''" "[]" "[]"]
          last recent found mon listed idle recent' flag reads
    by simp
qed


end
